theory Spec2Isabelle
  imports Complex_Main "HOL-Library.Word"
begin

section \<open>Python values, exceptions and decoded messages\<close>

text \<open>
  The module \<^verbatim>\<open>pygpsclient/ubx_handler.py\<close> holds one class, \<^verbatim>\<open>UBXHandler\<close>.
  Its methods read attributes of a decoded message, scale them and store them in
  the handler object. The values that flow through it are Python integers, floats,
  byte strings, strings and the time of day that \<^verbatim>\<open>itow2utc\<close> returns.

  A float is represented by the rational number it stands for: \<^verbatim>\<open>x / 10 ** 7\<close>
  is true division (never floor division), and the rounding of the quotient to a
  binary64 value is not part of this model.
\<close>

type_synonym byte = "8 word"
type_synonym bytes = "byte list"

datatype pyval =
    PInt int
  | PFloat rat
  | PBytes bytes
  | PStr string
  | PTime nat nat nat nat

text \<open>
  Exceptions are values. \<open>ValueError\<close> stands for the class and its subclasses,
  which \<^verbatim>\<open>except ValueError\<close> catches alike. \<open>FramingError\<close> is the decoder's
  parse error.
\<close>

datatype exn =
    AttributeError
  | TypeError
  | ValueError
  | KeyError
  | ZeroDivisionError
  | FramingError
  | OtherError string

text \<open>
  A decoded message: its identity and its payload attributes in field order.
  \<^verbatim>\<open>data.name\<close> on a message without that attribute raises \<^verbatim>\<open>AttributeError\<close>.
\<close>

record ubx_message =
  identity :: string
  attrs :: "(string \<times> pyval) list"

definition getattr :: "ubx_message \<Rightarrow> string \<Rightarrow> exn + pyval" where
  "getattr data name =
     (case map_of (attrs data) name of None \<Rightarrow> Inl AttributeError | Some v \<Rightarrow> Inr v)"

definition bind_exn :: "exn + 'a \<Rightarrow> ('a \<Rightarrow> exn + 'b) \<Rightarrow> exn + 'b" where
  "bind_exn r f = (case r of Inl e \<Rightarrow> Inl e | Inr v \<Rightarrow> f v)"

text \<open>
  Attributes read left to right, as in a tuple display
  \<^verbatim>\<open>(data.a, data.b, ...)\<close>: the first missing one raises.
\<close>

fun getattrs :: "ubx_message \<Rightarrow> string list \<Rightarrow> exn + pyval list" where
  "getattrs data [] = Inr []"
| "getattrs data (n # ns) =
     (case getattr data n of
        Inl e \<Rightarrow> Inl e
      | Inr v \<Rightarrow> (case getattrs data ns of Inl e \<Rightarrow> Inl e | Inr vs \<Rightarrow> Inr (v # vs)))"

text \<open>
  \<^verbatim>\<open>x / d\<close> with an integer literal \<open>d\<close> on the right. (An integer too large
  for a float would raise \<^verbatim>\<open>OverflowError\<close>; the fixed-width fields of the protocol
  stay far below that, and the rationals have no such bound.)
\<close>

fun py_truediv :: "pyval \<Rightarrow> int \<Rightarrow> exn + pyval" where
  "py_truediv (PInt n) d =
     (if d = 0 then Inl ZeroDivisionError else Inr (PFloat (of_int n / of_int d)))"
| "py_truediv (PFloat r) d =
     (if d = 0 then Inl ZeroDivisionError else Inr (PFloat (r / of_int d)))"
| "py_truediv (PBytes b) d = Inl TypeError"
| "py_truediv (PStr s) d = Inl TypeError"
| "py_truediv (PTime h m s u) d = Inl TypeError"

text \<open>\<^verbatim>\<open>x + y\<close>: numbers add, byte strings and strings concatenate.\<close>

fun py_add :: "pyval \<Rightarrow> pyval \<Rightarrow> exn + pyval" where
  "py_add (PInt a) (PInt b) = Inr (PInt (a + b))"
| "py_add (PInt a) (PFloat b) = Inr (PFloat (of_int a + b))"
| "py_add (PFloat a) (PInt b) = Inr (PFloat (a + of_int b))"
| "py_add (PFloat a) (PFloat b) = Inr (PFloat (a + b))"
| "py_add (PBytes a) (PBytes b) = Inr (PBytes (a @ b))"
| "py_add (PStr a) (PStr b) = Inr (PStr (a @ b))"
| "py_add x y = Inl TypeError"

text \<open>
  The builtin \<^verbatim>\<open>int(x)\<close>: an integer is returned as it is, a float is truncated
  towards zero, and a string or byte string is read as an integer literal by
  \<open>lit\<close> (Python's literal syntax, taken as a parameter), \<^verbatim>\<open>ValueError\<close> when it
  is none.
\<close>

fun py_int :: "(pyval \<Rightarrow> int option) \<Rightarrow> pyval \<Rightarrow> exn + int" where
  "py_int lit (PInt n) = Inr n"
| "py_int lit (PFloat r) = Inr (if 0 \<le> r then \<lfloor>r\<rfloor> else \<lceil>r\<rceil>)"
| "py_int lit (PTime h m s u) = Inl TypeError"
| "py_int lit v = (case lit v of None \<Rightarrow> Inl ValueError | Some n \<Rightarrow> Inr n)"

section \<open>What the module imports\<close>

text \<open>
  \<^verbatim>\<open>from pyubx2 import UBXMessage, POLL, UBX_CONFIG_MESSAGES\<close>: the library is
  not part of this module, so what the handler uses of it is a parameter:
  \<^item> \<open>parse\<close> is \<^verbatim>\<open>UBXMessage.parse(data, flag)\<close>;
  \<^item> \<open>UBX_CONFIG_MESSAGES\<close> is the catalog of configurable messages, a dictionary
    from the two bytes class + id (used as the payload of a CFG-MSG poll) to the
    message identity, in insertion order;
  \<^item> \<open>itow2utc\<close> and \<open>gpsfix2str\<close> are the two static helpers;
  \<^item> \<open>serialize\<close> is what \<^verbatim>\<open>UBXMessage(cls, msgtype, payload, mode).serialize()\<close>
    yields for an outbound message;
  \<^item> \<open>int_literal\<close> is the literal syntax of the builtin \<^verbatim>\<open>int\<close>.
\<close>

datatype msgmode = GET | SET | POLL

datatype ubx_out = UBXMessage string string "bytes option" msgmode

record env =
  parse :: "bytes \<Rightarrow> bool \<Rightarrow> exn + ubx_message"
  UBX_CONFIG_MESSAGES :: "(bytes \<times> string) list"
  itow2utc :: "pyval \<Rightarrow> exn + pyval"
  gpsfix2str :: "pyval \<Rightarrow> exn + pyval"
  serialize :: "ubx_out \<Rightarrow> bytes"
  int_literal :: "pyval \<Rightarrow> int option"

text \<open>
  \<^verbatim>\<open>UBX_CONFIG_MESSAGES[key]\<close>: the keys are byte strings, so any other key is
  absent; an absent key raises \<^verbatim>\<open>KeyError\<close>.
\<close>

fun dict_getitem :: "(bytes \<times> string) list \<Rightarrow> pyval \<Rightarrow> exn + string" where
  "dict_getitem d (PBytes k) = (case map_of d k of None \<Rightarrow> Inl KeyError | Some v \<Rightarrow> Inr v)"
| "dict_getitem d k = Inl KeyError"

section \<open>The handler object\<close>

text \<open>
  The application object behind \<^verbatim>\<open>self.__app\<close>: the two settings the handler
  reads and, in call order, the updates it sends to the console, banner, map,
  satellite and graph frames.
\<close>

type_synonym sat = "pyval \<times> pyval \<times> pyval \<times> pyval"

datatype str_arg = str_bytes bytes | str_message ubx_message

datatype event =
    update_console str_arg
  | update_banner "(string \<times> pyval) list"
  | update_map pyval pyval pyval pyval string bool
  | update_sats "sat list"
  | update_graph "sat list" int

record app_state =
  raw :: bool
  webmap :: bool
  events :: "event list"

record ubx_handler =
  app :: app_state
  raw_data :: "bytes option"
  parsed_data :: "ubx_message option"
  gsv_data :: "sat list"
  lon :: pyval
  lat :: pyval
  alt :: pyval
  track :: pyval
  speed :: pyval
  pdop :: pyval
  hdop :: pyval
  vdop :: pyval
  hacc :: pyval
  vacc :: pyval
  utc :: pyval
  sip :: pyval
  fix' :: pyval
  ubx_state :: "string \<rightharpoonup> pyval list"

text \<open>The constructor \<^verbatim>\<open>__init__\<close>.\<close>

definition UBXHandler :: "app_state \<Rightarrow> ubx_handler" where
  "UBXHandler a =
     \<lparr>app = a, raw_data = None, parsed_data = None, gsv_data = [],
      lon = PInt 0, lat = PInt 0, alt = PInt 0, track = PInt 0, speed = PInt 0,
      pdop = PInt 0, hdop = PInt 0, vdop = PInt 0, hacc = PInt 0, vacc = PInt 0,
      utc = PStr [], sip = PInt 0, fix' = PStr ''-'', ubx_state = Map.empty\<rparr>"

text \<open>
  A method body is a function from the object to the object it leaves behind and
  either the exception it raised or its result. An exception keeps the
  assignments made before it.
\<close>

type_synonym 'a action = "ubx_handler \<Rightarrow> ubx_handler \<times> (exn + 'a)"

fun run_stmts :: "unit action list \<Rightarrow> unit action" where
  "run_stmts [] self = (self, Inr ())"
| "run_stmts (c # cs) self =
     (case c self of
        (self', Inl e) \<Rightarrow> (self', Inl e)
      | (self', Inr u) \<Rightarrow> run_stmts cs self')"

definition if_then :: "bool \<Rightarrow> unit action \<Rightarrow> unit action" where
  "if_then c body self = (if c then body self else (self, Inr ()))"

text \<open>\<^verbatim>\<open>try: body except ValueError: pass\<close>\<close>

definition except_ValueError :: "unit action \<Rightarrow> unit action" where
  "except_ValueError body self =
     (case body self of
        (self', Inl e) \<Rightarrow> (if e = ValueError then (self', Inr ()) else (self', Inl e))
      | (self', Inr u) \<Rightarrow> (self', Inr ()))"

definition emit :: "event \<Rightarrow> unit action" where
  "emit ev self = (self\<lparr>app := (app self)\<lparr>events := events (app self) @ [ev]\<rparr>\<rparr>, Inr ())"

definition call :: "(ubx_handler \<Rightarrow> event) \<Rightarrow> unit action" where
  "call mk self = emit (mk self) self"

text \<open>The attributes the navigation handlers assign, and \<^verbatim>\<open>self.f = v\<close>.\<close>

datatype nav_field =
  Utc | Lat | Lon | Alt | Hacc | Vacc | Pdop | Hdop | Vdop | Sip | Speed | Track

fun set_field :: "nav_field \<Rightarrow> pyval \<Rightarrow> ubx_handler \<Rightarrow> ubx_handler" where
  "set_field Utc v self = self\<lparr>utc := v\<rparr>"
| "set_field Lat v self = self\<lparr>lat := v\<rparr>"
| "set_field Lon v self = self\<lparr>lon := v\<rparr>"
| "set_field Alt v self = self\<lparr>alt := v\<rparr>"
| "set_field Hacc v self = self\<lparr>hacc := v\<rparr>"
| "set_field Vacc v self = self\<lparr>vacc := v\<rparr>"
| "set_field Pdop v self = self\<lparr>pdop := v\<rparr>"
| "set_field Hdop v self = self\<lparr>hdop := v\<rparr>"
| "set_field Vdop v self = self\<lparr>vdop := v\<rparr>"
| "set_field Sip v self = self\<lparr>sip := v\<rparr>"
| "set_field Speed v self = self\<lparr>speed := v\<rparr>"
| "set_field Track v self = self\<lparr>track := v\<rparr>"

fun get_field :: "nav_field \<Rightarrow> ubx_handler \<Rightarrow> pyval" where
  "get_field Utc self = utc self"
| "get_field Lat self = lat self"
| "get_field Lon self = lon self"
| "get_field Alt self = alt self"
| "get_field Hacc self = hacc self"
| "get_field Vacc self = vacc self"
| "get_field Pdop self = pdop self"
| "get_field Hdop self = hdop self"
| "get_field Vdop self = vdop self"
| "get_field Sip self = sip self"
| "get_field Speed self = speed self"
| "get_field Track self = track self"

text \<open>
  \<^verbatim>\<open>self.f = expr\<close>, where \<open>expr\<close> reads the message only: the value of the
  right-hand side, or the exception it raised, is the second argument.
\<close>

definition assign :: "nav_field \<Rightarrow> exn + pyval \<Rightarrow> unit action" where
  "assign f r self = (case r of Inl e \<Rightarrow> (self, Inl e) | Inr v \<Rightarrow> (set_field f v self, Inr ()))"

definition assign_all :: "(nav_field \<times> (exn + pyval)) list \<Rightarrow> unit action" where
  "assign_all as = run_stmts (map (\<lambda>(f, r). assign f r) as)"

text \<open>\<^verbatim>\<open>data.name / d\<close>\<close>

definition scaled :: "ubx_message \<Rightarrow> string \<Rightarrow> int \<Rightarrow> exn + pyval" where
  "scaled data name d = bind_exn (getattr data name) (\<lambda>v. py_truediv v d)"

section \<open>poll_ubx_config\<close>

record serial =
  written :: "bytes list"
  unread :: "bytes list"

definition serial_write :: "bytes \<Rightarrow> serial \<Rightarrow> serial" where
  "serial_write b s = s\<lparr>written := written s @ [b]\<rparr>"

definition poll_ubx_config :: "env \<Rightarrow> serial \<Rightarrow> serial" where
  "poll_ubx_config lib serial0 =
     (let s1 = fold (\<lambda>msgtype s. serial_write (serialize lib (UBXMessage ''CFG'' msgtype None POLL)) s)
                 [''CFG-PRT'', ''CFG-USB''] serial0;
          s2 = fold (\<lambda>payload s.
                   serial_write (serialize lib (UBXMessage ''CFG'' ''CFG-MSG'' (Some payload) POLL)) s)
                 (map fst (UBX_CONFIG_MESSAGES lib)) s1
      in serial_write (serialize lib (UBXMessage ''CFG'' ''CFG-INF'' (Some [0]) POLL)) s2)"

section \<open>The configuration handlers\<close>

definition process_CFG_MSG :: "env \<Rightarrow> ubx_message \<Rightarrow> unit action" where
  "process_CFG_MSG lib data self =
     (case bind_exn (getattr data ''msgClass'') (\<lambda>c.
           bind_exn (getattr data ''msgID'') (\<lambda>i.
           bind_exn (py_add c i) (dict_getitem (UBX_CONFIG_MESSAGES lib)))) of
        Inl e \<Rightarrow> (self, Inl e)
      | Inr msgtype \<Rightarrow>
          (case getattrs data [''rateDDC'', ''rateUART1'', ''rateUART2'', ''rateUSB'',
                               ''rateSPI'', ''reserved''] of
             Inl e \<Rightarrow> (self, Inl e)
           | Inr rates \<Rightarrow> (self\<lparr>ubx_state := (ubx_state self)(msgtype \<mapsto> rates)\<rparr>, Inr ())))"

definition process_CFG_INF :: "ubx_message \<Rightarrow> unit action" where
  "process_CFG_INF data self =
     (case getattrs data [''infMsgMaskDDC'', ''infMsgMaskUART1'', ''infMsgMaskUART2'',
                          ''infMsgMaskUSB'', ''infMsgMaskSPI''] of
        Inl e \<Rightarrow> (self, Inl e)
      | Inr cfg \<Rightarrow> (self\<lparr>ubx_state := (ubx_state self)(''CFG-INF'' \<mapsto> cfg)\<rparr>, Inr ()))"

definition process_CFG_PRT :: "ubx_message \<Rightarrow> unit action" where
  "process_CFG_PRT data self =
     (case getattrs data [''mode'', ''baudRate'', ''inProtoMask'', ''outProtoMask''] of
        Inl e \<Rightarrow> (self, Inl e)
      | Inr cfg \<Rightarrow> (self\<lparr>ubx_state := (ubx_state self)(''CFG-PRT'' \<mapsto> cfg)\<rparr>, Inr ()))"

section \<open>The navigation handlers\<close>

text \<open>
  The map update shared by the two position handlers: the last argument is
  \<^verbatim>\<open>False\<close> when the \<^verbatim>\<open>webmap\<close> setting is on, \<^verbatim>\<open>True\<close> otherwise.
\<close>

definition update_map_call :: "unit action" where
  "update_map_call self =
     (if webmap (app self)
      then emit (update_map (lat self) (lon self) (hacc self) (vacc self) ''3D'' False) self
      else emit (update_map (lat self) (lon self) (hacc self) (vacc self) ''3D'' True) self)"

definition NAV_POSLLH_assigns :: "env \<Rightarrow> ubx_message \<Rightarrow> (nav_field \<times> (exn + pyval)) list" where
  "NAV_POSLLH_assigns lib data =
     [(Utc, bind_exn (getattr data ''iTOW'') (itow2utc lib)),
      (Lat, scaled data ''lat'' (10 ^ 7)),
      (Lon, scaled data ''lon'' (10 ^ 7)),
      (Alt, scaled data ''hMSL'' 1000),
      (Hacc, scaled data ''hAcc'' 1000),
      (Vacc, scaled data ''vAcc'' 1000)]"

definition process_NAV_POSLLH :: "env \<Rightarrow> ubx_message \<Rightarrow> unit action" where
  "process_NAV_POSLLH lib data =
     except_ValueError (run_stmts
       [assign_all (NAV_POSLLH_assigns lib data),
        call (\<lambda>self. update_banner
          [(''time'', utc self), (''lat'', lat self), (''lon'', lon self),
           (''alt'', alt self), (''hacc'', hacc self), (''vacc'', vacc self)]),
        update_map_call])"

definition NAV_PVT_assigns :: "env \<Rightarrow> ubx_message \<Rightarrow> (nav_field \<times> (exn + pyval)) list" where
  "NAV_PVT_assigns lib data =
     [(Utc, bind_exn (getattr data ''iTOW'') (itow2utc lib)),
      (Lat, scaled data ''lat'' (10 ^ 7)),
      (Lon, scaled data ''lon'' (10 ^ 7)),
      (Alt, scaled data ''hMSL'' 1000),
      (Hacc, scaled data ''hAcc'' 1000),
      (Vacc, scaled data ''vAcc'' 1000),
      (Pdop, getattr data ''pDOP''),
      (Sip, getattr data ''numSV''),
      (Speed, scaled data ''gSpeed'' 100),
      (Track, scaled data ''headMot'' (10 ^ 5))]"

definition process_NAV_PVT :: "env \<Rightarrow> ubx_message \<Rightarrow> unit action" where
  "process_NAV_PVT lib data =
     except_ValueError (\<lambda>self.
       case assign_all (NAV_PVT_assigns lib data) self of
         (self', Inl e) \<Rightarrow> (self', Inl e)
       | (self', Inr u) \<Rightarrow>
           (case bind_exn (getattr data ''fixType'') (gpsfix2str lib) of
              Inl e \<Rightarrow> (self', Inl e)
            | Inr fix \<Rightarrow>
                run_stmts
                  [call (\<lambda>self. update_banner
                     [(''time'', utc self), (''lat'', lat self), (''lon'', lon self),
                      (''alt'', alt self), (''hacc'', hacc self), (''vacc'', vacc self),
                      (''pdop'', pdop self), (''sip'', sip self), (''speed'', speed self),
                      (''fix'', fix), (''track'', track self)]),
                   update_map_call] self'))"

definition NAV_VELNED_assigns :: "ubx_message \<Rightarrow> (nav_field \<times> (exn + pyval)) list" where
  "NAV_VELNED_assigns data =
     [(Track, scaled data ''heading'' (10 ^ 5)),
      (Speed, scaled data ''gSpeed'' 100)]"

definition process_NAV_VELNED :: "ubx_message \<Rightarrow> unit action" where
  "process_NAV_VELNED data =
     except_ValueError (run_stmts
       [assign_all (NAV_VELNED_assigns data),
        call (\<lambda>self. update_banner [(''speed'', speed self), (''track'', track self)])])"

text \<open>
  \<^verbatim>\<open>"_{0:0=2d}".format(i + 1)\<close>: an underscore and the decimal digits of \<open>i + 1\<close>,
  padded with a zero to two digits.
\<close>

fun decimal :: "nat \<Rightarrow> string" where
  "decimal n =
     (if n < 10 then [''0123456789'' ! n]
      else decimal (n div 10) @ [''0123456789'' ! (n mod 10)])"

definition idx :: "nat \<Rightarrow> string" where
  "idx i = (if i + 1 < 10 then ''_0'' @ decimal (i + 1) else ''_'' @ decimal (i + 1))"

text \<open>
  The statement run by \<^verbatim>\<open>exec\<close> for index \<open>i\<close>:
  \<^verbatim>\<open>self.gsv_data.append((data.svid_NN, data.elev_NN, data.azim_NN, data.cno_NN))\<close>.
\<close>

definition append_sat :: "ubx_message \<Rightarrow> nat \<Rightarrow> unit action" where
  "append_sat data i self =
     (case getattr data (''svid'' @ idx i) of Inl e \<Rightarrow> (self, Inl e) | Inr sv \<Rightarrow>
      case getattr data (''elev'' @ idx i) of Inl e \<Rightarrow> (self, Inl e) | Inr el \<Rightarrow>
      case getattr data (''azim'' @ idx i) of Inl e \<Rightarrow> (self, Inl e) | Inr az \<Rightarrow>
      case getattr data (''cno'' @ idx i) of Inl e \<Rightarrow> (self, Inl e) | Inr cn \<Rightarrow>
        (self\<lparr>gsv_data := gsv_data self @ [(sv, el, az, cn)]\<rparr>, Inr ()))"

definition process_NAV_SVINFO :: "env \<Rightarrow> ubx_message \<Rightarrow> unit action" where
  "process_NAV_SVINFO lib data =
     except_ValueError (\<lambda>self.
       let self0 = self\<lparr>gsv_data := []\<rparr> in
       case bind_exn (getattr data ''numCh'') (py_int (int_literal lib)) of
         Inl e \<Rightarrow> (self0, Inl e)
       | Inr num_siv \<Rightarrow>
           run_stmts
             ([emit (update_banner [(''siv'', PInt num_siv)])] @
              map (append_sat data) [0..<nat num_siv] @
              [call (\<lambda>self. update_sats (gsv_data self)),
               call (\<lambda>self. update_graph (gsv_data self) num_siv)]) self0)"

definition NAV_SOL_assigns :: "ubx_message \<Rightarrow> (nav_field \<times> (exn + pyval)) list" where
  "NAV_SOL_assigns data =
     [(Pdop, scaled data ''pDOP'' 100),
      (Sip, getattr data ''numSV'')]"

definition process_NAV_SOL :: "env \<Rightarrow> ubx_message \<Rightarrow> unit action" where
  "process_NAV_SOL lib data =
     except_ValueError (\<lambda>self.
       case assign_all (NAV_SOL_assigns data) self of
         (self', Inl e) \<Rightarrow> (self', Inl e)
       | (self', Inr u) \<Rightarrow>
           (case bind_exn (getattr data ''gpsFix'') (gpsfix2str lib) of
              Inl e \<Rightarrow> (self', Inl e)
            | Inr fix \<Rightarrow>
                call (\<lambda>self. update_banner
                  [(''dop'', pdop self), (''fix'', fix), (''sip'', sip self)]) self'))"

definition NAV_DOP_assigns :: "ubx_message \<Rightarrow> (nav_field \<times> (exn + pyval)) list" where
  "NAV_DOP_assigns data =
     [(Pdop, scaled data ''pDOP'' 100),
      (Hdop, scaled data ''hDOP'' 100),
      (Vdop, scaled data ''vDOP'' 100)]"

definition process_NAV_DOP :: "ubx_message \<Rightarrow> unit action" where
  "process_NAV_DOP data =
     except_ValueError (run_stmts
       [assign_all (NAV_DOP_assigns data),
        call (\<lambda>self. update_banner
          [(''dop'', pdop self), (''hdop'', hdop self), (''vdop'', vdop self)])])"

section \<open>process_data\<close>

text \<open>
  \<^verbatim>\<open>_update_console\<close>: the raw bytes or the decoded message, as text, by the
  \<^verbatim>\<open>raw\<close> setting.
\<close>

definition self_update_console :: "bytes \<Rightarrow> ubx_message \<Rightarrow> unit action" where
  "self_update_console raw_bytes parsed self =
     (if raw (app self) then emit (update_console (str_bytes raw_bytes)) self
      else emit (update_console (str_message parsed)) self)"

text \<open>
  The decoder is called with \<^verbatim>\<open>False\<close> for its flag. An exception of the decoder
  or of a handler leaves \<^verbatim>\<open>process_data\<close> at once. The last test,
  \<^verbatim>\<open>if data or parsed_data\<close>, holds for every decoded message: a message object
  is true.
\<close>

definition process_data :: "env \<Rightarrow> bytes \<Rightarrow> ubx_message action" where
  "process_data lib data self =
     (case parse lib data False of
        Inl e \<Rightarrow> (self, Inl e)
      | Inr parsed \<Rightarrow>
          (case run_stmts
                  [if_then (identity parsed = ''CFG-MSG'') (process_CFG_MSG lib parsed),
                   if_then (identity parsed = ''CFG-PRT'') (process_CFG_PRT parsed),
                   if_then (identity parsed = ''CFG-INF'') (process_CFG_INF parsed),
                   if_then (identity parsed = ''NAV-POSLLH'') (process_NAV_POSLLH lib parsed),
                   if_then (identity parsed = ''NAV-PVT'') (process_NAV_PVT lib parsed),
                   if_then (identity parsed = ''NAV-VELNED'') (process_NAV_VELNED parsed),
                   if_then (identity parsed = ''NAV-SVINFO'') (process_NAV_SVINFO lib parsed),
                   if_then (identity parsed = ''NAV-SOL'') (process_NAV_SOL lib parsed),
                   if_then (identity parsed = ''NAV-DOP'') (process_NAV_DOP parsed),
                   if_then (data \<noteq> [] \<or> True) (self_update_console data parsed)] self of
             (self', Inl e) \<Rightarrow> (self', Inl e)
           | (self', Inr u) \<Rightarrow> (self', Inr parsed)))"

section \<open>The navigation handlers and their assignments\<close>

text \<open>
  The five handlers that assign navigation attributes, each with its assignments
  in textual order. (\<^verbatim>\<open>_process_NAV_SVINFO\<close> assigns none of them.)
\<close>

definition nav_handlers ::
  "env \<Rightarrow> ubx_message \<Rightarrow> ((nav_field \<times> (exn + pyval)) list \<times> unit action) list" where
  "nav_handlers lib data =
     [(NAV_POSLLH_assigns lib data, process_NAV_POSLLH lib data),
      (NAV_PVT_assigns lib data, process_NAV_PVT lib data),
      (NAV_VELNED_assigns data, process_NAV_VELNED data),
      (NAV_SOL_assigns data, process_NAV_SOL lib data),
      (NAV_DOP_assigns data, process_NAV_DOP data)]"

section \<open>The decoder, as the specification describes it\<close>

text \<open>
  Modelled from the spec: \<^verbatim>\<open>UBXMessage.parse\<close> belongs to the pyubx2 library and
  is not among the sources. Section 4.1 of the specification gives the frame
  layout: two sync bytes, a class byte, an id byte, a two-byte little-endian
  payload length, the payload, and a two-byte checksum computed over class to
  payload. Parsing fails with \<open>FramingError\<close> when the sync marker or the
  checksum is wrong; a class/id pair that is not known fails in strict mode and
  yields the identity \<^verbatim>\<open>unknown\<close> in permissive mode (sections 4.1 and 7). The
  sync marker, the checksum algorithm, the table of identities and the field
  layouts come from the receiver protocol and are parameters.
\<close>

record framing =
  sync :: bytes
  checksum :: "bytes \<Rightarrow> bytes"
  lookup_identity :: "byte \<Rightarrow> byte \<Rightarrow> string option"
  decode_payload :: "string \<Rightarrow> bytes \<Rightarrow> (string \<times> pyval) list"

definition frame_checksum :: "bytes \<Rightarrow> bytes" where
  "frame_checksum message = drop (length message - 2) message"

definition frame_covered :: "bytes \<Rightarrow> bytes" where
  "frame_covered message = take (length message - 4) (drop 2 message)"

definition frame_payload :: "bytes \<Rightarrow> bytes" where
  "frame_payload message = take (length message - 8) (drop 6 message)"

definition ubx_parse :: "framing \<Rightarrow> bytes \<Rightarrow> bool \<Rightarrow> exn + ubx_message" where
  "ubx_parse fr message strict =
     (if length message < 8 then Inl FramingError
      else if take 2 message \<noteq> sync fr then Inl FramingError
      else if frame_checksum message \<noteq> checksum fr (frame_covered message)
        then Inl FramingError
      else (case lookup_identity fr (message ! 2) (message ! 3) of
              None \<Rightarrow>
                (if strict then Inl FramingError
                 else Inr \<lparr>identity = ''unknown'', attrs = []\<rparr>)
            | Some i \<Rightarrow>
                Inr \<lparr>identity = i, attrs = decode_payload fr i (frame_payload message)\<rparr>))"

section \<open>A concrete environment for the examples\<close>

text \<open>
  The receiver protocol's checksum (two running 8-bit sums) and sync marker, and a
  framing with the class/id pairs of three messages and no field layouts.
\<close>

definition fletcher8 :: "bytes \<Rightarrow> bytes" where
  "fletcher8 bs = (case fold (\<lambda>x (a, b). (a + x, b + (a + x))) bs (0, 0) of (a, b) \<Rightarrow> [a, b])"

definition demo_framing :: framing where
  "demo_framing =
     \<lparr>sync = [0xB5, 0x62], checksum = fletcher8,
      lookup_identity = (\<lambda>c i. map_of [((0x01, 0x02), ''NAV-POSLLH''), ((0x01, 0x04), ''NAV-DOP''),
                                         ((0x05, 0x01), ''ACK-ACK'')] (c, i)),
      decode_payload = (\<lambda>i p. [])\<rparr>"

text \<open>An acknowledgement frame whose last checksum byte, \<open>0x38\<close>, is replaced by \<open>0x39\<close>.\<close>

definition corrupted_frame :: bytes where
  "corrupted_frame = [0xB5, 0x62, 0x05, 0x01, 0x02, 0x00, 0x06, 0x01, 0x0F, 0x39]"

text \<open>
  Instances of the two static helpers: the time of day of a GPS time of week in
  milliseconds (less the 16 leap seconds between GPS time and UTC), and the name of
  a fix type.
\<close>

fun demo_itow2utc :: "pyval \<Rightarrow> exn + pyval" where
  "demo_itow2utc (PInt t) =
     (let ms = nat ((t - 16000) mod 86400000)
      in Inr (PTime (ms div 3600000) (ms div 60000 mod 60) (ms div 1000 mod 60)
                (ms mod 1000 * 1000)))"
| "demo_itow2utc v = Inl TypeError"

definition demo_gpsfix2str :: "pyval \<Rightarrow> exn + pyval" where
  "demo_gpsfix2str fix =
     Inr (PStr (if fix = PInt 5 then ''TIME ONLY'' else if fix = PInt 4 then ''GPS + DR''
                else if fix = PInt 3 then ''3D'' else if fix = PInt 2 then ''2D''
                else if fix = PInt 1 then ''DR'' else ''NO FIX''))"

text \<open>Decoded messages, and the frames that stand for them in the examples.\<close>

definition posllh_msg :: ubx_message where
  "posllh_msg =
     \<lparr>identity = ''NAV-POSLLH'',
      attrs = [(''iTOW'', PInt 403667000), (''lon'', PInt 85464325), (''lat'', PInt 473397625),
               (''height'', PInt 459848), (''hMSL'', PInt 412345), (''hAcc'', PInt 1500),
               (''vAcc'', PInt 2500)]\<rparr>"

definition posllh_no_hAcc :: ubx_message where
  "posllh_no_hAcc =
     \<lparr>identity = ''NAV-POSLLH'',
      attrs = [(''iTOW'', PInt 403667000), (''lon'', PInt 85464325), (''lat'', PInt 473397625),
               (''height'', PInt 459848), (''hMSL'', PInt 412345), (''vAcc'', PInt 2500)]\<rparr>"

definition dop_msg :: ubx_message where
  "dop_msg =
     \<lparr>identity = ''NAV-DOP'',
      attrs = [(''iTOW'', PInt 403667000), (''gDOP'', PInt 310), (''pDOP'', PInt 250),
               (''tDOP'', PInt 160), (''vDOP'', PInt 180), (''hDOP'', PInt 120),
               (''nDOP'', PInt 90), (''eDOP'', PInt 80)]\<rparr>"

definition pvt_msg :: ubx_message where
  "pvt_msg =
     \<lparr>identity = ''NAV-PVT'',
      attrs = [(''iTOW'', PInt 403668000), (''fixType'', PInt 3), (''numSV'', PInt 9),
               (''lon'', PInt 85464325), (''lat'', PInt 473397625), (''height'', PInt 459848),
               (''hMSL'', PInt 412345), (''hAcc'', PInt 1500), (''vAcc'', PInt 2500),
               (''gSpeed'', PInt 150), (''headMot'', PInt 4512345), (''pDOP'', PInt 999)]\<rparr>"

definition pvt_no_pDOP :: ubx_message where
  "pvt_no_pDOP =
     \<lparr>identity = ''NAV-PVT'',
      attrs = [(''iTOW'', PInt 403668000), (''fixType'', PInt 3), (''numSV'', PInt 9),
               (''lon'', PInt 85464325), (''lat'', PInt 473397625), (''height'', PInt 459848),
               (''hMSL'', PInt 412345), (''hAcc'', PInt 1500), (''vAcc'', PInt 2500),
               (''gSpeed'', PInt 150), (''headMot'', PInt 4512345)]\<rparr>"

definition svinfo_msg :: ubx_message where
  "svinfo_msg =
     \<lparr>identity = ''NAV-SVINFO'',
      attrs = [(''iTOW'', PInt 403667000), (''numCh'', PInt 2),
               (''svid_01'', PInt 5), (''cno_01'', PInt 41), (''elev_01'', PInt 62),
               (''azim_01'', PInt 201),
               (''svid_02'', PInt 13), (''cno_02'', PInt 33), (''elev_02'', PInt 17),
               (''azim_02'', PInt 310)]\<rparr>"

definition cfg_msg_msg :: ubx_message where
  "cfg_msg_msg =
     \<lparr>identity = ''CFG-MSG'',
      attrs = [(''msgClass'', PBytes [0x01]), (''msgID'', PBytes [0x02]),
               (''rateDDC'', PInt 0), (''rateUART1'', PInt 1), (''rateUART2'', PInt 0),
               (''rateUSB'', PInt 1), (''rateSPI'', PInt 0), (''reserved'', PInt 0)]\<rparr>"

definition cfg_prt_no_baudRate :: ubx_message where
  "cfg_prt_no_baudRate =
     \<lparr>identity = ''CFG-PRT'',
      attrs = [(''portID'', PInt 1), (''mode'', PBytes [0xD0, 0x08, 0x00, 0x00]),
               (''inProtoMask'', PBytes [0x07, 0x00]), (''outProtoMask'', PBytes [0x03, 0x00])]\<rparr>"

definition cfg_inf_no_infMsgMaskUSB :: ubx_message where
  "cfg_inf_no_infMsgMaskUSB =
     \<lparr>identity = ''CFG-INF'',
      attrs = [(''protocolID'', PInt 0), (''infMsgMaskDDC'', PBytes [0x00]),
               (''infMsgMaskUART1'', PBytes [0x07]), (''infMsgMaskUART2'', PBytes [0x00]),
               (''infMsgMaskSPI'', PBytes [0x00])]\<rparr>"

definition cfg_msg_unknown_key :: ubx_message where
  "cfg_msg_unknown_key =
     \<lparr>identity = ''CFG-MSG'',
      attrs = [(''msgClass'', PBytes [0xF0]), (''msgID'', PBytes [0x0A]),
               (''rateDDC'', PInt 0), (''rateUART1'', PInt 1), (''rateUART2'', PInt 0),
               (''rateUSB'', PInt 1), (''rateSPI'', PInt 0), (''reserved'', PInt 0)]\<rparr>"

definition cfg_msg_no_rateSPI :: ubx_message where
  "cfg_msg_no_rateSPI =
     \<lparr>identity = ''CFG-MSG'',
      attrs = [(''msgClass'', PBytes [0x01]), (''msgID'', PBytes [0x02]),
               (''rateDDC'', PInt 0), (''rateUART1'', PInt 1), (''rateUART2'', PInt 0),
               (''rateUSB'', PInt 1), (''reserved'', PInt 0)]\<rparr>"

definition ack_msg :: ubx_message where
  "ack_msg =
     \<lparr>identity = ''ACK-ACK'',
      attrs = [(''clsID'', PBytes [0x06]), (''msgID'', PBytes [0x01])]\<rparr>"

definition demo_frames :: "(bytes \<times> ubx_message) list" where
  "demo_frames =
     [([0xB5, 0x62, 0x01, 0x02, 0x00], posllh_msg),
      ([0xB5, 0x62, 0x01, 0x02, 0x01], posllh_no_hAcc),
      ([0xB5, 0x62, 0x01, 0x04, 0x00], dop_msg),
      ([0xB5, 0x62, 0x01, 0x07, 0x00], pvt_msg),
      ([0xB5, 0x62, 0x01, 0x07, 0x01], pvt_no_pDOP),
      ([0xB5, 0x62, 0x01, 0x30, 0x00], svinfo_msg),
      ([0xB5, 0x62, 0x06, 0x01, 0x00], cfg_msg_msg),
      ([0xB5, 0x62, 0x06, 0x00, 0x01], cfg_prt_no_baudRate),
      ([0xB5, 0x62, 0x05, 0x01, 0x00], ack_msg),
      ([0xB5, 0x62, 0x06, 0x02, 0x01], cfg_inf_no_infMsgMaskUSB),
      ([0xB5, 0x62, 0x06, 0x01, 0x01], cfg_msg_unknown_key),
      ([0xB5, 0x62, 0x06, 0x01, 0x02], cfg_msg_no_rateSPI)]"

definition demo_env :: env where
  "demo_env =
     \<lparr>parse = (\<lambda>data flag. case map_of demo_frames data of
                                None \<Rightarrow> Inl FramingError | Some m \<Rightarrow> Inr m),
      UBX_CONFIG_MESSAGES = [([0x01, 0x02], ''NAV-POSLLH''), ([0x01, 0x07], ''NAV-PVT''),
                             ([0x01, 0x04], ''NAV-DOP'')],
      itow2utc = demo_itow2utc,
      gpsfix2str = demo_gpsfix2str,
      serialize = (\<lambda>out. case out of UBXMessage c t p md \<Rightarrow> (case p of None \<Rightarrow> [] | Some b \<Rightarrow> b)),
      int_literal = (\<lambda>v. None)\<rparr>"

definition demo_app :: app_state where
  "demo_app = \<lparr>raw = False, webmap = False, events = []\<rparr>"

section \<open>Assignments, events and dispatch\<close>

lemma get_set_field:
  "get_field f (set_field g v self) = (if f = g then v else get_field f self)"
  by (cases f; cases g; simp)

lemma assign_all_Nil: "assign_all [] self = (self, Inr ())"
  by (simp add: assign_all_def)

lemma assign_all_Inl: "assign_all ((f, Inl e) # as) self = (self, Inl e)"
  by (simp add: assign_all_def assign_def)

lemma assign_all_Inr: "assign_all ((f, Inr v) # as) self = assign_all as (set_field f v self)"
  by (simp add: assign_all_def assign_def)

lemma assign_all_other:
  "f \<notin> set (map fst as) \<Longrightarrow> get_field f (fst (assign_all as self)) = get_field f self"
proof (induction as arbitrary: self)
  case Nil
  then show ?case by (simp add: assign_all_Nil)
next
  case (Cons a as)
  obtain g r where a: "a = (g, r)" by (cases a)
  show ?case
  proof (cases r)
    case (Inl e)
    then show ?thesis by (simp add: a assign_all_Inl)
  next
    case (Inr v)
    with Cons show ?thesis by (simp add: a assign_all_Inr get_set_field)
  qed
qed

lemma assign_all_prefix:
  "distinct (map fst as) \<Longrightarrow> k < length as \<Longrightarrow> map snd (take k as) = map Inr vs \<Longrightarrow>
   snd (as ! k) = Inl e \<Longrightarrow>
   snd (assign_all as self) = Inl e \<and>
   map (\<lambda>f. get_field f (fst (assign_all as self))) (map fst as) =
     vs @ map (\<lambda>f. get_field f self) (map fst (drop k as))"
proof (induction as arbitrary: k vs self)
  case Nil
  then show ?case by simp
next
  case (Cons a as)
  obtain g r where a: "a = (g, r)" by (cases a)
  show ?case
  proof (cases k)
    case 0
    with Cons.prems have r: "r = Inl e" and vs: "vs = []" by (auto simp: a)
    show ?thesis by (simp add: a r vs 0 assign_all_Inl)
  next
    case (Suc k')
    with Cons.prems obtain v vs' where r: "r = Inr v" and vs: "vs = v # vs'"
      and rest: "map snd (take k' as) = map Inr vs'"
      by (cases vs) (auto simp: a)
    from Cons.prems Suc have d: "distinct (map fst as)" and g: "g \<notin> set (map fst as)"
      and k': "k' < length as" and e: "snd (as ! k') = Inl e"
      by (auto simp: a)
    note ih = Cons.IH [OF d k' rest e, of "set_field g v self"]
    have other: "map (\<lambda>f. get_field f (set_field g v self)) (map fst (drop k' as)) =
                 map (\<lambda>f. get_field f self) (map fst (drop k' as))"
    proof -
      have "\<forall>f \<in> set (map fst (drop k' as)). f \<noteq> g"
        using g by (auto dest: in_set_dropD)
      then show ?thesis by (simp add: get_set_field)
    qed
    have first: "get_field g (fst (assign_all as (set_field g v self))) = v"
      using assign_all_other [OF g, of "set_field g v self"] by (simp add: get_set_field)
    show ?thesis
      using ih first other by (simp add: a r vs Suc assign_all_Inr)
  qed
qed

lemma process_data_parse_error:
  "parse lib data False = Inl e \<Longrightarrow> process_data lib data self = (self, Inl e)"
  by (simp add: process_data_def)

lemma dispatch_POSLLH:
  "parse lib data False = Inr m \<Longrightarrow> identity m = ''NAV-POSLLH'' \<Longrightarrow>
   process_data lib data self =
     (case process_NAV_POSLLH lib m self of
        (s', Inl e) \<Rightarrow> (s', Inl e)
      | (s', Inr u) \<Rightarrow> (fst (self_update_console data m s'), Inr m))"
  by (simp add: process_data_def if_then_def self_update_console_def emit_def
      split: prod.splits sum.splits)



lemma dispatch_SVINFO:
  "parse lib data False = Inr m \<Longrightarrow> identity m = ''NAV-SVINFO'' \<Longrightarrow>
   process_data lib data self =
     (case process_NAV_SVINFO lib m self of
        (s', Inl e) \<Rightarrow> (s', Inl e)
      | (s', Inr u) \<Rightarrow> (fst (self_update_console data m s'), Inr m))"
  by (simp add: process_data_def if_then_def self_update_console_def emit_def
      split: prod.splits sum.splits)

lemma dispatch_CFG_MSG:
  "parse lib data False = Inr m \<Longrightarrow> identity m = ''CFG-MSG'' \<Longrightarrow>
   process_data lib data self =
     (case process_CFG_MSG lib m self of
        (s', Inl e) \<Rightarrow> (s', Inl e)
      | (s', Inr u) \<Rightarrow> (fst (self_update_console data m s'), Inr m))"
  by (simp add: process_data_def if_then_def self_update_console_def emit_def
      split: prod.splits sum.splits)

lemma dispatch_CFG_PRT:
  "parse lib data False = Inr m \<Longrightarrow> identity m = ''CFG-PRT'' \<Longrightarrow>
   process_data lib data self =
     (case process_CFG_PRT m self of
        (s', Inl e) \<Rightarrow> (s', Inl e)
      | (s', Inr u) \<Rightarrow> (fst (self_update_console data m s'), Inr m))"
  by (simp add: process_data_def if_then_def self_update_console_def emit_def
      split: prod.splits sum.splits)

lemma dispatch_CFG_INF:
  "parse lib data False = Inr m \<Longrightarrow> identity m = ''CFG-INF'' \<Longrightarrow>
   process_data lib data self =
     (case process_CFG_INF m self of
        (s', Inl e) \<Rightarrow> (s', Inl e)
      | (s', Inr u) \<Rightarrow> (fst (self_update_console data m s'), Inr m))"
  by (simp add: process_data_def if_then_def self_update_console_def emit_def
      split: prod.splits sum.splits)

lemma get_field_app_update: "get_field f (self\<lparr>app := a\<rparr>) = get_field f self"
  by (cases f; simp)

lemma get_field_console:
  "get_field f (fst (self_update_console data m self)) = get_field f self"
  by (simp add: self_update_console_def emit_def get_field_app_update)

lemma nav_fields_POSLLH:
  "get_field f (fst (process_NAV_POSLLH lib m self)) =
   get_field f (fst (assign_all (NAV_POSLLH_assigns lib m) self))"
  by (simp add: process_NAV_POSLLH_def except_ValueError_def call_def emit_def
      update_map_call_def get_field_app_update split: prod.splits sum.splits)



lemma raise_POSLLH:
  "assign_all (NAV_POSLLH_assigns lib m) self = (s', Inl e) \<Longrightarrow>
   process_NAV_POSLLH lib m self = (s', if e = ValueError then Inr () else Inl e)"
  by (simp add: process_NAV_POSLLH_def except_ValueError_def)

lemma raise_PVT:
  "assign_all (NAV_PVT_assigns lib m) self = (s', Inl e) \<Longrightarrow>
   process_NAV_PVT lib m self = (s', if e = ValueError then Inr () else Inl e)"
  by (simp add: process_NAV_PVT_def except_ValueError_def)

lemma raise_VELNED:
  "assign_all (NAV_VELNED_assigns m) self = (s', Inl e) \<Longrightarrow>
   process_NAV_VELNED m self = (s', if e = ValueError then Inr () else Inl e)"
  by (simp add: process_NAV_VELNED_def except_ValueError_def)

lemma raise_SOL:
  "assign_all (NAV_SOL_assigns m) self = (s', Inl e) \<Longrightarrow>
   process_NAV_SOL lib m self = (s', if e = ValueError then Inr () else Inl e)"
  by (simp add: process_NAV_SOL_def except_ValueError_def)

lemma raise_DOP:
  "assign_all (NAV_DOP_assigns m) self = (s', Inl e) \<Longrightarrow>
   process_NAV_DOP m self = (s', if e = ValueError then Inr () else Inl e)"
  by (simp add: process_NAV_DOP_def except_ValueError_def)

lemma nav_handlers_distinct:
  "(as, handler) \<in> set (nav_handlers lib m) \<Longrightarrow> distinct (map fst as)"
  by (auto simp: nav_handlers_def NAV_POSLLH_assigns_def NAV_PVT_assigns_def
      NAV_VELNED_assigns_def NAV_SOL_assigns_def NAV_DOP_assigns_def)

lemma nav_handlers_raise:
  "(as, handler) \<in> set (nav_handlers lib m) \<Longrightarrow> assign_all as self = (s', Inl e) \<Longrightarrow>
   handler self = (s', if e = ValueError then Inr () else Inl e)"
  unfolding nav_handlers_def
  using raise_POSLLH raise_PVT raise_VELNED raise_SOL raise_DOP
  by auto

section \<open>Failure inside a navigation handler: a prefix of the assignments has happened\<close>

text \<open>
  C10. In each navigation handler the attributes are assigned one after the other
  in textual order. When the right-hand side of assignment \<open>k\<close> raises, the
  attributes assigned before it hold the values \<open>vs\<close> of the new message and the
  attributes from \<open>k\<close> on keep what they held: a prefix update, not all or
  nothing. The handler swallows the exception when it is a \<^verbatim>\<open>ValueError\<close> and
  passes it on otherwise.
\<close>

theorem nav_handler_prefix_update:
  assumes "(as, handler) \<in> set (nav_handlers lib data)"
    and "k < length as"
    and "map snd (take k as) = map Inr vs"
    and "snd (as ! k) = Inl e"
  shows "map (\<lambda>f. get_field f (fst (handler self))) (map fst as) =
           vs @ map (\<lambda>f. get_field f self) (map fst (drop k as)) \<and>
         snd (handler self) = (if e = ValueError then Inr () else Inl e)"
proof -
  have d: "distinct (map fst as)"
    using assms(1) by (rule nav_handlers_distinct)
  note p = assign_all_prefix [OF d assms(2) assms(3) assms(4), of self]
  obtain s' where s': "assign_all as self = (s', Inl e)"
    using p by (cases "assign_all as self") auto
  have h: "handler self = (s', if e = ValueError then Inr () else Inl e)"
    using assms(1) s' by (rule nav_handlers_raise)
  show ?thesis using p by (simp add: h s')
qed

theorem nav_handler_prefix_update_witness:
  "map (\<lambda>f. get_field f (fst (process_NAV_PVT demo_env pvt_no_pDOP (UBXHandler demo_app))))
     [Utc, Lat, Lon, Alt, Hacc, Vacc, Pdop, Sip, Speed, Track] =
   [PTime 16 7 32 0, PFloat 47.3397625, PFloat 8.5464325, PFloat 412.345, PFloat 1.5,
    PFloat 2.5, PInt 0, PInt 0, PInt 0, PInt 0] \<and>
   snd (process_NAV_PVT demo_env pvt_no_pDOP (UBXHandler demo_app)) = Inl AttributeError"
proof -
  let ?as = "NAV_PVT_assigns demo_env pvt_no_pDOP"
  let ?vs = "[PTime 16 7 32 0, PFloat 47.3397625, PFloat 8.5464325, PFloat 412.345,
              PFloat 1.5, PFloat 2.5]"
  have a: "?as = [(Utc, Inr (PTime 16 7 32 0)), (Lat, Inr (PFloat 47.3397625)),
                  (Lon, Inr (PFloat 8.5464325)), (Alt, Inr (PFloat 412.345)),
                  (Hacc, Inr (PFloat 1.5)), (Vacc, Inr (PFloat 2.5)),
                  (Pdop, Inl AttributeError), (Sip, Inr (PInt 9)),
                  (Speed, Inr (PFloat 1.5)), (Track, Inr (PFloat 45.12345))]"
    by (simp add: NAV_PVT_assigns_def pvt_no_pDOP_def scaled_def bind_exn_def getattr_def
        demo_env_def)
  have h1: "(?as, process_NAV_PVT demo_env pvt_no_pDOP) \<in> set (nav_handlers demo_env pvt_no_pDOP)"
    by (simp add: nav_handlers_def)
  have h2: "6 < length ?as" by (simp add: a)
  have h3: "map snd (take 6 ?as) = map Inr ?vs" by (simp add: a)
  have h4: "snd (?as ! 6) = Inl AttributeError" by (simp add: a)
  from nav_handler_prefix_update [OF h1 h2 h3 h4, of "UBXHandler demo_app"]
  show ?thesis by (simp add: a UBXHandler_def)
qed

lemma dispatch_other:
  "parse lib data False = Inr m \<Longrightarrow>
   identity m \<notin> set [''CFG-MSG'', ''CFG-PRT'', ''CFG-INF'', ''NAV-POSLLH'', ''NAV-PVT'',
                     ''NAV-VELNED'', ''NAV-SVINFO'', ''NAV-SOL'', ''NAV-DOP''] \<Longrightarrow>
   process_data lib data self =
     (self\<lparr>app := (app self)\<lparr>events := events (app self) @
         [update_console (if raw (app self) then str_bytes data else str_message m)]\<rparr>\<rparr>, Inr m)"
  by (simp add: process_data_def if_then_def self_update_console_def emit_def)

section \<open>Scaling in the position handler\<close>

text \<open>
  C9. The position handler scales by true division: for every raw latitude \<open>la\<close>
  (units of 1e-7 degree) it stores \<open>la / 10^7\<close> degrees, and for every raw height
  above mean sea level \<open>h\<close> (millimetres) it stores \<open>h / 1000\<close> metres. In
  particular a raw latitude of 473397625 is stored as 47.3397625 and a raw height
  of 412345 as 412.345. The assignments before each of them (time, and for the
  height also longitude) have to succeed for the handler to get that far; what the
  accuracy fields hold does not matter.
\<close>

theorem posllh_scale_exact:
  assumes "parse lib data False = Inr m" and "identity m = ''NAV-POSLLH''"
    and "getattr m ''iTOW'' = Inr t" and "itow2utc lib t = Inr u"
    and "getattr m ''lat'' = Inr (PInt la)"
    and "getattr m ''lon'' = Inr (PInt lo)"
    and "getattr m ''hMSL'' = Inr (PInt h)"
  shows "lat (fst (process_data lib data self)) = PFloat (of_int la / 10 ^ 7) \<and>
         alt (fst (process_data lib data self)) = PFloat (of_int h / 1000) \<and>
         (la = 473397625 \<longrightarrow> lat (fst (process_data lib data self)) = PFloat 47.3397625) \<and>
         (h = 412345 \<longrightarrow> alt (fst (process_data lib data self)) = PFloat 412.345)"
proof -
  let ?s4 = "self\<lparr>utc := u, lat := PFloat (of_int la / 10 ^ 7),
                   lon := PFloat (of_int lo / 10 ^ 7), alt := PFloat (of_int h / 1000)\<rparr>"
  let ?rest = "[(Hacc, scaled m ''hAcc'' 1000), (Vacc, scaled m ''vAcc'' 1000)]"
  have a: "assign_all (NAV_POSLLH_assigns lib m) self = assign_all ?rest ?s4"
    using assms(3-7)
    by (simp add: NAV_POSLLH_assigns_def scaled_def bind_exn_def assign_all_Inr)
  have f: "get_field g (fst (process_data lib data self)) = get_field g (fst (assign_all ?rest ?s4))"
    for g
    using dispatch_POSLLH [OF assms(1,2), of self] nav_fields_POSLLH [of g lib m self]
      get_field_console [of g data m]
    by (simp add: a split: prod.splits sum.splits)
  have "get_field Lat (fst (assign_all ?rest ?s4)) = get_field Lat ?s4"
    by (rule assign_all_other) simp
  then have la: "lat (fst (process_data lib data self)) = PFloat (of_int la / 10 ^ 7)"
    using f [of Lat] by simp
  have "get_field Alt (fst (assign_all ?rest ?s4)) = get_field Alt ?s4"
    by (rule assign_all_other) simp
  then have h: "alt (fst (process_data lib data self)) = PFloat (of_int h / 1000)"
    using f [of Alt] by simp
  show ?thesis
    by (simp add: la h)
qed

theorem posllh_scale_exact_witness:
  "lat (fst (process_data demo_env [0xB5, 0x62, 0x01, 0x02, 0x00] (UBXHandler demo_app))) =
     PFloat 47.3397625 \<and>
   alt (fst (process_data demo_env [0xB5, 0x62, 0x01, 0x02, 0x00] (UBXHandler demo_app))) =
     PFloat 412.345"
proof -
  have h1: "parse demo_env [0xB5, 0x62, 0x01, 0x02, 0x00] False = Inr posllh_msg"
    by (simp add: demo_env_def demo_frames_def)
  have h2: "identity posllh_msg = ''NAV-POSLLH''" by (simp add: posllh_msg_def)
  have h3: "getattr posllh_msg ''iTOW'' = Inr (PInt 403667000)"
    by (simp add: getattr_def posllh_msg_def)
  have h4: "itow2utc demo_env (PInt 403667000) = Inr (PTime 16 7 31 0)"
    by (simp add: demo_env_def)
  have h5: "getattr posllh_msg ''lat'' = Inr (PInt 473397625)"
    by (simp add: getattr_def posllh_msg_def)
  have h6: "getattr posllh_msg ''lon'' = Inr (PInt 85464325)"
    by (simp add: getattr_def posllh_msg_def)
  have h7: "getattr posllh_msg ''hMSL'' = Inr (PInt 412345)"
    by (simp add: getattr_def posllh_msg_def)
  from posllh_scale_exact [OF h1 h2 h3 h4 h5 h6 h7, of "UBXHandler demo_app"]
  show ?thesis by simp
qed

section \<open>A position message without its accuracy field\<close>

text \<open>
  C1, as the code behaves. A NAV-POSLLH message whose time, latitude, longitude
  and height decode but whose horizontal accuracy \<^verbatim>\<open>hAcc\<close> is missing: reading
  \<^verbatim>\<open>data.hAcc\<close> raises \<^verbatim>\<open>AttributeError\<close>, which \<^verbatim>\<open>except ValueError\<close> does not
  catch, so it leaves the handler and \<^verbatim>\<open>process_data\<close>. By then \<^verbatim>\<open>utc\<close>, \<^verbatim>\<open>lat\<close>,
  \<^verbatim>\<open>lon\<close> and \<^verbatim>\<open>alt\<close> hold the values of the new message; everything else,
  the accuracies included, is as before, and nothing is sent to the banner, the
  map or the console.

  The example first: from the initial state, latitude and longitude change from 0
  to the message's values and the exception escapes.
\<close>

theorem posllh_missing_hAcc_counterexample:
  "snd (process_data demo_env [0xB5, 0x62, 0x01, 0x02, 0x01] (UBXHandler demo_app)) =
     Inl AttributeError \<and>
   lat (UBXHandler demo_app) = PInt 0 \<and>
   lat (fst (process_data demo_env [0xB5, 0x62, 0x01, 0x02, 0x01] (UBXHandler demo_app))) =
     PFloat 47.3397625 \<and>
   lon (UBXHandler demo_app) = PInt 0 \<and>
   lon (fst (process_data demo_env [0xB5, 0x62, 0x01, 0x02, 0x01] (UBXHandler demo_app))) =
     PFloat 8.5464325"
  by (simp add: process_data_def demo_env_def demo_frames_def posllh_no_hAcc_def if_then_def
      process_NAV_POSLLH_def except_ValueError_def NAV_POSLLH_assigns_def scaled_def
      bind_exn_def getattr_def assign_all_Inr assign_all_Inl UBXHandler_def)

text \<open>
  C1, amended: the statement for every state and every such message.
\<close>

theorem posllh_missing_hAcc:
  assumes "parse lib data False = Inr m" and "identity m = ''NAV-POSLLH''"
    and "getattr m ''iTOW'' = Inr t" and "itow2utc lib t = Inr u"
    and "getattr m ''lat'' = Inr (PInt la)"
    and "getattr m ''lon'' = Inr (PInt lo)"
    and "getattr m ''hMSL'' = Inr (PInt h)"
    and "map_of (attrs m) ''hAcc'' = None"
  shows "process_data lib data self =
           (self\<lparr>utc := u, lat := PFloat (of_int la / 10 ^ 7),
                  lon := PFloat (of_int lo / 10 ^ 7), alt := PFloat (of_int h / 1000)\<rparr>,
            Inl AttributeError)"
proof -
  have hacc: "getattr m ''hAcc'' = Inl AttributeError"
    using assms(8) by (simp add: getattr_def)
  have a: "assign_all (NAV_POSLLH_assigns lib m) self =
             (self\<lparr>utc := u, lat := PFloat (of_int la / 10 ^ 7),
                    lon := PFloat (of_int lo / 10 ^ 7), alt := PFloat (of_int h / 1000)\<rparr>,
              Inl AttributeError)"
    using assms(3-7) hacc
    by (simp add: NAV_POSLLH_assigns_def scaled_def bind_exn_def assign_all_Inr assign_all_Inl)
  show ?thesis
    using dispatch_POSLLH [OF assms(1,2), of self] raise_POSLLH [OF a]
    by simp
qed

theorem posllh_missing_hAcc_witness:
  "process_data demo_env [0xB5, 0x62, 0x01, 0x02, 0x01] (UBXHandler demo_app) =
     ((UBXHandler demo_app)\<lparr>utc := PTime 16 7 31 0, lat := PFloat 47.3397625,
         lon := PFloat 8.5464325, alt := PFloat 412.345\<rparr>, Inl AttributeError)"
proof -
  have h1: "parse demo_env [0xB5, 0x62, 0x01, 0x02, 0x01] False = Inr posllh_no_hAcc"
    by (simp add: demo_env_def demo_frames_def)
  have h2: "identity posllh_no_hAcc = ''NAV-POSLLH''" by (simp add: posllh_no_hAcc_def)
  have h3: "getattr posllh_no_hAcc ''iTOW'' = Inr (PInt 403667000)"
    by (simp add: getattr_def posllh_no_hAcc_def)
  have h4: "itow2utc demo_env (PInt 403667000) = Inr (PTime 16 7 31 0)"
    by (simp add: demo_env_def)
  have h5: "getattr posllh_no_hAcc ''lat'' = Inr (PInt 473397625)"
    by (simp add: getattr_def posllh_no_hAcc_def)
  have h6: "getattr posllh_no_hAcc ''lon'' = Inr (PInt 85464325)"
    by (simp add: getattr_def posllh_no_hAcc_def)
  have h7: "getattr posllh_no_hAcc ''hMSL'' = Inr (PInt 412345)"
    by (simp add: getattr_def posllh_no_hAcc_def)
  have h8: "map_of (attrs posllh_no_hAcc) ''hAcc'' = None"
    by (simp add: posllh_no_hAcc_def)
  from posllh_missing_hAcc [OF h1 h2 h3 h4 h5 h6 h7 h8, of "UBXHandler demo_app"]
  show ?thesis by simp
qed

section \<open>Messages without a handler\<close>

text \<open>
  C7. A decoded message whose identity is none of the nine that \<^verbatim>\<open>process_data\<close>
  tests for runs no handler: the configuration store, the navigation attributes
  and the satellite list are untouched, and the only effect is one console update
  (of the raw bytes or of the message, by the \<^verbatim>\<open>raw\<close> setting).
\<close>

theorem unregistered_identity_only_console:
  assumes "parse lib data False = Inr m"
    and "identity m \<notin> set [''CFG-MSG'', ''CFG-PRT'', ''CFG-INF'', ''NAV-POSLLH'', ''NAV-PVT'',
                            ''NAV-VELNED'', ''NAV-SVINFO'', ''NAV-SOL'', ''NAV-DOP'']"
  shows "process_data lib data self =
     (self\<lparr>app := (app self)\<lparr>events := events (app self) @
         [update_console (if raw (app self) then str_bytes data else str_message m)]\<rparr>\<rparr>, Inr m)"
  using assms by (rule dispatch_other)

theorem unregistered_identity_only_console_witness:
  "process_data demo_env [0xB5, 0x62, 0x05, 0x01, 0x00] (UBXHandler demo_app) =
     ((UBXHandler demo_app)\<lparr>app := demo_app\<lparr>events := [update_console (str_message ack_msg)]\<rparr>\<rparr>,
      Inr ack_msg)"
proof -
  have h1: "parse demo_env [0xB5, 0x62, 0x05, 0x01, 0x00] False = Inr ack_msg"
    by (simp add: demo_env_def demo_frames_def)
  have h2: "identity ack_msg \<notin> set [''CFG-MSG'', ''CFG-PRT'', ''CFG-INF'', ''NAV-POSLLH'',
              ''NAV-PVT'', ''NAV-VELNED'', ''NAV-SVINFO'', ''NAV-SOL'', ''NAV-DOP'']"
    by (simp add: ack_msg_def)
  from unregistered_identity_only_console [OF h1 h2, of "UBXHandler demo_app"]
  show ?thesis by (simp add: UBXHandler_def demo_app_def)
qed

section \<open>A frame with a wrong checksum\<close>

text \<open>
  C3. With the decoder of the specification, a frame whose checksum bytes differ
  from the checksum computed over class to payload makes \<^verbatim>\<open>process_data\<close> fail
  with \<open>FramingError\<close> before any handler runs: the whole handler object, and with
  it the configuration store and the navigation state, is unchanged.
\<close>

theorem corrupted_checksum_framing_error:
  assumes "parse lib = ubx_parse fr"
    and "frame_checksum data \<noteq> checksum fr (frame_covered data)"
  shows "process_data lib data self = (self, Inl FramingError)"
proof -
  have "parse lib data False = Inl FramingError"
    using assms by (simp add: ubx_parse_def)
  then show ?thesis by (rule process_data_parse_error)
qed

theorem corrupted_checksum_framing_error_witness:
  "frame_checksum corrupted_frame = [0x0F, 0x39] \<and>
   checksum demo_framing (frame_covered corrupted_frame) = [0x0F, 0x38] \<and>
   process_data (demo_env\<lparr>parse := ubx_parse demo_framing\<rparr>) corrupted_frame
     (UBXHandler demo_app) = (UBXHandler demo_app, Inl FramingError)"
proof -
  have c1: "frame_checksum corrupted_frame = [0x0F, 0x39]"
    by (simp add: frame_checksum_def corrupted_frame_def)
  have c2: "checksum demo_framing (frame_covered corrupted_frame) = [0x0F, 0x38]"
    by (simp add: frame_covered_def corrupted_frame_def demo_framing_def fletcher8_def)
  have h1: "parse (demo_env\<lparr>parse := ubx_parse demo_framing\<rparr>) = ubx_parse demo_framing"
    by simp
  have h2: "frame_checksum corrupted_frame \<noteq> checksum demo_framing (frame_covered corrupted_frame)"
    by (simp add: c1 c2)
  from corrupted_checksum_framing_error [OF h1 h2, of "UBXHandler demo_app"] c1 c2
  show ?thesis by simp
qed

lemma written_fold_write:
  "written (fold (\<lambda>x s. s\<lparr>written := written s @ [f x]\<rparr>) xs s0) = written s0 @ map f xs"
  by (induction xs arbitrary: s0) simp_all

lemma unread_fold_write:
  "unread (fold (\<lambda>x s. s\<lparr>written := written s @ [f x]\<rparr>) xs s0) = unread s0"
  by (induction xs arbitrary: s0) simp_all

section \<open>The configuration poll\<close>

text \<open>
  C6. One call of \<^verbatim>\<open>poll_ubx_config\<close> appends to what was written before, in
  this order: one CFG-PRT poll, one CFG-USB poll, one CFG-MSG poll for each key of
  the catalog in catalog order, and one CFG-INF poll; that is three writes more
  than the catalog has entries. Nothing is read from the port.
\<close>

theorem poll_ubx_config_writes:
  "written (poll_ubx_config lib port) =
     written port @
     map (serialize lib)
       ([UBXMessage ''CFG'' ''CFG-PRT'' None POLL, UBXMessage ''CFG'' ''CFG-USB'' None POLL] @
        map (\<lambda>payload. UBXMessage ''CFG'' ''CFG-MSG'' (Some payload) POLL)
          (map fst (UBX_CONFIG_MESSAGES lib)) @
        [UBXMessage ''CFG'' ''CFG-INF'' (Some [0]) POLL]) \<and>
   length (written (poll_ubx_config lib port)) =
     length (written port) + length (UBX_CONFIG_MESSAGES lib) + 3 \<and>
   unread (poll_ubx_config lib port) = unread port"
  by (simp add: poll_ubx_config_def Let_def serial_write_def written_fold_write
      unread_fold_write comp_def)



section \<open>Dilution of precision, then position-velocity-time\<close>



lemma run_stmts_append_sat:
  "\<forall>i \<in> set is. getattr m (''svid'' @ idx i) = Inr (sv i) \<and>
                 getattr m (''elev'' @ idx i) = Inr (el i) \<and>
                 getattr m (''azim'' @ idx i) = Inr (az i) \<and>
                 getattr m (''cno'' @ idx i) = Inr (cn i) \<Longrightarrow>
   run_stmts (map (append_sat m) is @ rest) s =
   run_stmts rest (s\<lparr>gsv_data := gsv_data s @ map (\<lambda>i. (sv i, el i, az i, cn i)) is\<rparr>)"
proof (induction "is" arbitrary: s)
  case Nil
  then show ?case by simp
next
  case (Cons i "is")
  have step: "append_sat m i s = (s\<lparr>gsv_data := gsv_data s @ [(sv i, el i, az i, cn i)]\<rparr>, Inr ())"
    using Cons.prems by (simp add: append_sat_def)
  have rest: "\<forall>i \<in> set is. getattr m (''svid'' @ idx i) = Inr (sv i) \<and>
                 getattr m (''elev'' @ idx i) = Inr (el i) \<and>
                 getattr m (''azim'' @ idx i) = Inr (az i) \<and>
                 getattr m (''cno'' @ idx i) = Inr (cn i)"
    using Cons.prems by simp
  show ?case
    using Cons.IH [OF rest, of "s\<lparr>gsv_data := gsv_data s @ [(sv i, el i, az i, cn i)]\<rparr>"]
    by (simp add: step)
qed

section \<open>The satellite list\<close>

text \<open>
  C5. A NAV-SVINFO message with \<^verbatim>\<open>numCh\<close> = \<open>n\<close> that carries the attributes
  \<^verbatim>\<open>svid_NN\<close>, \<^verbatim>\<open>elev_NN\<close>, \<^verbatim>\<open>azim_NN\<close> and \<^verbatim>\<open>cno_NN\<close> for the indices 1 to \<open>n\<close>
  leaves in \<^verbatim>\<open>gsv_data\<close> exactly the \<open>n\<close> records (id, elevation, azimuth, signal
  strength) of those indices, in order; nothing of the list held before remains.
\<close>

theorem svinfo_replaces_list:
  assumes "parse lib data False = Inr m" and "identity m = ''NAV-SVINFO''"
    and "getattr m ''numCh'' = Inr (PInt n)" and "0 \<le> n"
    and "\<forall>i < nat n. getattr m (''svid'' @ idx i) = Inr (sv i) \<and>
                      getattr m (''elev'' @ idx i) = Inr (el i) \<and>
                      getattr m (''azim'' @ idx i) = Inr (az i) \<and>
                      getattr m (''cno'' @ idx i) = Inr (cn i)"
  shows "gsv_data (fst (process_data lib data self)) =
           map (\<lambda>i. (sv i, el i, az i, cn i)) [0..<nat n] \<and>
         int (length (gsv_data (fst (process_data lib data self)))) = n \<and>
         snd (process_data lib data self) = Inr m"
proof -
  have all: "\<forall>i \<in> set [0..<nat n]. getattr m (''svid'' @ idx i) = Inr (sv i) \<and>
                      getattr m (''elev'' @ idx i) = Inr (el i) \<and>
                      getattr m (''azim'' @ idx i) = Inr (az i) \<and>
                      getattr m (''cno'' @ idx i) = Inr (cn i)"
    using assms(5) by simp
  let ?sats = "map (\<lambda>i. (sv i, el i, az i, cn i)) [0..<nat n]"
  have h: "\<exists>s'. process_NAV_SVINFO lib m self = (s', Inr ()) \<and> gsv_data s' = ?sats"
    using assms(3)
    by (simp add: process_NAV_SVINFO_def except_ValueError_def bind_exn_def Let_def
        emit_def call_def run_stmts_append_sat [OF all])
  then obtain s' where s': "process_NAV_SVINFO lib m self = (s', Inr ())"
    and g: "gsv_data s' = ?sats" by blast
  have "process_data lib data self = (fst (self_update_console data m s'), Inr m)"
    using dispatch_SVINFO [OF assms(1,2), of self] by (simp add: s')
  moreover have "gsv_data (fst (self_update_console data m s')) = gsv_data s'"
    by (simp add: self_update_console_def emit_def)
  ultimately show ?thesis using g assms(4) by simp
qed

theorem svinfo_replaces_list_witness:
  "gsv_data (fst (process_data demo_env [0xB5, 0x62, 0x01, 0x30, 0x00]
      ((UBXHandler demo_app)\<lparr>gsv_data := [(PInt 1, PInt 2, PInt 3, PInt 4)]\<rparr>))) =
     [(PInt 5, PInt 62, PInt 201, PInt 41), (PInt 13, PInt 17, PInt 310, PInt 33)]"
proof -
  have h1: "parse demo_env [0xB5, 0x62, 0x01, 0x30, 0x00] False = Inr svinfo_msg"
    by (simp add: demo_env_def demo_frames_def)
  have h2: "identity svinfo_msg = ''NAV-SVINFO''" by (simp add: svinfo_msg_def)
  have h3: "getattr svinfo_msg ''numCh'' = Inr (PInt 2)"
    by (simp add: getattr_def svinfo_msg_def)
  have h4: "(0::int) \<le> 2" by simp
  have h5: "\<forall>i < nat 2.
       getattr svinfo_msg (''svid'' @ idx i) = Inr ([PInt 5, PInt 13] ! i) \<and>
       getattr svinfo_msg (''elev'' @ idx i) = Inr ([PInt 62, PInt 17] ! i) \<and>
       getattr svinfo_msg (''azim'' @ idx i) = Inr ([PInt 201, PInt 310] ! i) \<and>
       getattr svinfo_msg (''cno'' @ idx i) = Inr ([PInt 41, PInt 33] ! i)"
    by (auto simp: less_Suc_eq numeral_2_eq_2 idx_def getattr_def svinfo_msg_def)
  from svinfo_replaces_list [OF h1 h2 h3 h4 h5,
      of "(UBXHandler demo_app)\<lparr>gsv_data := [(PInt 1, PInt 2, PInt 3, PInt 4)]\<rparr>"]
  show ?thesis by (simp add: numeral_2_eq_2)
qed

section \<open>A message-rate response processed twice\<close>

text \<open>
  C8. Processing the same CFG-MSG response a second time leaves the configuration
  store as it was after the first time: the entry is overwritten with an equal
  tuple.
\<close>

theorem cfg_msg_idempotent:
  assumes "parse lib data False = Inr m" and "identity m = ''CFG-MSG''"
  shows "ubx_state (fst (process_data lib data (fst (process_data lib data self)))) =
         ubx_state (fst (process_data lib data self))"
  using dispatch_CFG_MSG [OF assms, of self]
    dispatch_CFG_MSG [OF assms, of "fst (process_data lib data self)"]
  by (simp add: process_CFG_MSG_def self_update_console_def emit_def split: sum.splits)

theorem cfg_msg_idempotent_witness:
  "ubx_state (fst (process_data demo_env [0xB5, 0x62, 0x06, 0x01, 0x00]
      (fst (process_data demo_env [0xB5, 0x62, 0x06, 0x01, 0x00] (UBXHandler demo_app))))) =
   ubx_state (fst (process_data demo_env [0xB5, 0x62, 0x06, 0x01, 0x00] (UBXHandler demo_app))) \<and>
   ubx_state (fst (process_data demo_env [0xB5, 0x62, 0x06, 0x01, 0x00] (UBXHandler demo_app)))
     ''NAV-POSLLH'' = Some [PInt 0, PInt 1, PInt 0, PInt 1, PInt 0, PInt 0]"
proof -
  have h1: "parse demo_env [0xB5, 0x62, 0x06, 0x01, 0x00] False = Inr cfg_msg_msg"
    by (simp add: demo_env_def demo_frames_def)
  have h2: "identity cfg_msg_msg = ''CFG-MSG''" by (simp add: cfg_msg_msg_def)
  have e: "process_CFG_MSG demo_env cfg_msg_msg (UBXHandler demo_app) =
             ((UBXHandler demo_app)\<lparr>ubx_state := (ubx_state (UBXHandler demo_app))
                (''NAV-POSLLH'' \<mapsto> [PInt 0, PInt 1, PInt 0, PInt 1, PInt 0, PInt 0])\<rparr>, Inr ())"
    by (simp add: process_CFG_MSG_def cfg_msg_msg_def getattr_def bind_exn_def demo_env_def)
  have v: "ubx_state (fst (process_data demo_env [0xB5, 0x62, 0x06, 0x01, 0x00]
             (UBXHandler demo_app))) ''NAV-POSLLH'' =
           Some [PInt 0, PInt 1, PInt 0, PInt 1, PInt 0, PInt 0]"
    using dispatch_CFG_MSG [OF h1 h2, of "UBXHandler demo_app"]
    by (simp add: e self_update_console_def emit_def)
  from cfg_msg_idempotent [OF h1 h2, of "UBXHandler demo_app"] v
  show ?thesis by simp
qed

lemma getattrs_missing:
  "n \<in> set ns \<Longrightarrow> map_of (attrs m) n = None \<Longrightarrow> getattrs m ns = Inl AttributeError"
  by (induction ns) (auto simp: getattr_def split: option.splits sum.splits)

section \<open>A configuration message whose fields cannot be read\<close>

text \<open>
  C2, as the code behaves. The three configuration handlers have no
  \<^verbatim>\<open>try\<close>: when reading a field raises, the exception leaves the handler and
  \<^verbatim>\<open>process_data\<close>. The store is assigned only after every field has been read, so
  the handler object is unchanged, and the console is not updated.

  The example first: a CFG-PRT message without \<^verbatim>\<open>baudRate\<close> makes \<^verbatim>\<open>process_data\<close>
  end with \<^verbatim>\<open>AttributeError\<close>.
\<close>

theorem cfg_prt_missing_field_counterexample:
  "getattr cfg_prt_no_baudRate ''baudRate'' = Inl AttributeError \<and>
   process_data demo_env [0xB5, 0x62, 0x06, 0x00, 0x01] (UBXHandler demo_app) =
     (UBXHandler demo_app, Inl AttributeError)"
  by (simp add: process_data_def demo_env_def demo_frames_def cfg_prt_no_baudRate_def
      if_then_def process_CFG_PRT_def getattr_def)

text \<open>
  C2, amended. For a configuration message in which a field extraction fails with
  an exception \<open>e\<close>, \<^verbatim>\<open>process_data\<close> ends with \<open>e\<close> and leaves the handler object,
  the configuration store included, as it was. The extractions are those of the
  source: the tuple of CFG-PRT fields, the tuple of CFG-INF fields, and for
  CFG-MSG first the catalog entry for \<^verbatim>\<open>data.msgClass + data.msgID\<close> and then the
  tuple of rates. (By \<open>getattrs_missing\<close>, a tuple one of whose attributes is
  missing fails with \<^verbatim>\<open>AttributeError\<close>.)
\<close>

theorem cfg_field_extraction_failure_escapes:
  assumes "parse lib data False = Inr m"
    and "identity m = ''CFG-PRT'' \<and>
           getattrs m [''mode'', ''baudRate'', ''inProtoMask'', ''outProtoMask''] = Inl e
         \<or> identity m = ''CFG-INF'' \<and>
           getattrs m [''infMsgMaskDDC'', ''infMsgMaskUART1'', ''infMsgMaskUART2'',
                       ''infMsgMaskUSB'', ''infMsgMaskSPI''] = Inl e
         \<or> identity m = ''CFG-MSG'' \<and>
           bind_exn (getattr m ''msgClass'') (\<lambda>c.
             bind_exn (getattr m ''msgID'') (\<lambda>i.
             bind_exn (py_add c i) (dict_getitem (UBX_CONFIG_MESSAGES lib)))) = Inl e
         \<or> identity m = ''CFG-MSG'' \<and>
           bind_exn (getattr m ''msgClass'') (\<lambda>c.
             bind_exn (getattr m ''msgID'') (\<lambda>i.
             bind_exn (py_add c i) (dict_getitem (UBX_CONFIG_MESSAGES lib)))) = Inr msgtype \<and>
           getattrs m [''rateDDC'', ''rateUART1'', ''rateUART2'', ''rateUSB'',
                       ''rateSPI'', ''reserved''] = Inl e"
  shows "process_data lib data self = (self, Inl e)"
proof -
  from assms(2) consider
      (prt) "identity m = ''CFG-PRT''"
        "getattrs m [''mode'', ''baudRate'', ''inProtoMask'', ''outProtoMask''] = Inl e"
    | (inf) "identity m = ''CFG-INF''"
        "getattrs m [''infMsgMaskDDC'', ''infMsgMaskUART1'', ''infMsgMaskUART2'',
                     ''infMsgMaskUSB'', ''infMsgMaskSPI''] = Inl e"
    | (key) "identity m = ''CFG-MSG''"
        "bind_exn (getattr m ''msgClass'') (\<lambda>c.
           bind_exn (getattr m ''msgID'') (\<lambda>i.
           bind_exn (py_add c i) (dict_getitem (UBX_CONFIG_MESSAGES lib)))) = Inl e"
    | (rates) "identity m = ''CFG-MSG''"
        "bind_exn (getattr m ''msgClass'') (\<lambda>c.
           bind_exn (getattr m ''msgID'') (\<lambda>i.
           bind_exn (py_add c i) (dict_getitem (UBX_CONFIG_MESSAGES lib)))) = Inr msgtype"
        "getattrs m [''rateDDC'', ''rateUART1'', ''rateUART2'', ''rateUSB'',
                     ''rateSPI'', ''reserved''] = Inl e"
    by blast
  then show ?thesis
  proof cases
    case prt
    have "process_CFG_PRT m self = (self, Inl e)"
      unfolding process_CFG_PRT_def prt(2) by simp
    then show ?thesis using dispatch_CFG_PRT [OF assms(1) prt(1), of self] by simp
  next
    case inf
    have "process_CFG_INF m self = (self, Inl e)"
      unfolding process_CFG_INF_def inf(2) by simp
    then show ?thesis using dispatch_CFG_INF [OF assms(1) inf(1), of self] by simp
  next
    case key
    have "process_CFG_MSG lib m self = (self, Inl e)"
      unfolding process_CFG_MSG_def key(2) by simp
    then show ?thesis using dispatch_CFG_MSG [OF assms(1) key(1), of self] by simp
  next
    case rates
    have "process_CFG_MSG lib m self = (self, Inl e)"
      unfolding process_CFG_MSG_def rates(2) rates(3) by simp
    then show ?thesis using dispatch_CFG_MSG [OF assms(1) rates(1), of self] by simp
  qed
qed

theorem cfg_field_extraction_failure_escapes_witness:
  "process_data demo_env [0xB5, 0x62, 0x06, 0x00, 0x01] (UBXHandler demo_app) =
     (UBXHandler demo_app, Inl AttributeError) \<and>
   process_data demo_env [0xB5, 0x62, 0x06, 0x02, 0x01] (UBXHandler demo_app) =
     (UBXHandler demo_app, Inl AttributeError) \<and>
   process_data demo_env [0xB5, 0x62, 0x06, 0x01, 0x01] (UBXHandler demo_app) =
     (UBXHandler demo_app, Inl KeyError) \<and>
   process_data demo_env [0xB5, 0x62, 0x06, 0x01, 0x02] (UBXHandler demo_app) =
     (UBXHandler demo_app, Inl AttributeError)"
proof -
  have p1: "parse demo_env [0xB5, 0x62, 0x06, 0x00, 0x01] False = Inr cfg_prt_no_baudRate"
    by (simp add: demo_env_def demo_frames_def)
  have i1: "identity cfg_prt_no_baudRate = ''CFG-PRT''"
    by (simp add: cfg_prt_no_baudRate_def)
  have g1: "getattrs cfg_prt_no_baudRate [''mode'', ''baudRate'', ''inProtoMask'', ''outProtoMask'']
              = Inl AttributeError"
    by (rule getattrs_missing [of "''baudRate''"]) (simp_all add: cfg_prt_no_baudRate_def)
  have r1: "process_data demo_env [0xB5, 0x62, 0x06, 0x00, 0x01] (UBXHandler demo_app) =
              (UBXHandler demo_app, Inl AttributeError)"
    using i1 g1 by (intro cfg_field_extraction_failure_escapes [OF p1]) simp
  have p2: "parse demo_env [0xB5, 0x62, 0x06, 0x02, 0x01] False = Inr cfg_inf_no_infMsgMaskUSB"
    by (simp add: demo_env_def demo_frames_def)
  have i2: "identity cfg_inf_no_infMsgMaskUSB = ''CFG-INF''"
    by (simp add: cfg_inf_no_infMsgMaskUSB_def)
  have g2: "getattrs cfg_inf_no_infMsgMaskUSB
              [''infMsgMaskDDC'', ''infMsgMaskUART1'', ''infMsgMaskUART2'',
               ''infMsgMaskUSB'', ''infMsgMaskSPI''] = Inl AttributeError"
    by (rule getattrs_missing [of "''infMsgMaskUSB''"]) (simp_all add: cfg_inf_no_infMsgMaskUSB_def)
  have r2: "process_data demo_env [0xB5, 0x62, 0x06, 0x02, 0x01] (UBXHandler demo_app) =
              (UBXHandler demo_app, Inl AttributeError)"
    using i2 g2 by (intro cfg_field_extraction_failure_escapes [OF p2]) simp
  have p3: "parse demo_env [0xB5, 0x62, 0x06, 0x01, 0x01] False = Inr cfg_msg_unknown_key"
    by (simp add: demo_env_def demo_frames_def)
  have i3: "identity cfg_msg_unknown_key = ''CFG-MSG''"
    by (simp add: cfg_msg_unknown_key_def)
  have g3: "bind_exn (getattr cfg_msg_unknown_key ''msgClass'') (\<lambda>c.
              bind_exn (getattr cfg_msg_unknown_key ''msgID'') (\<lambda>i.
              bind_exn (py_add c i) (dict_getitem (UBX_CONFIG_MESSAGES demo_env)))) = Inl KeyError"
    by (simp add: bind_exn_def getattr_def cfg_msg_unknown_key_def demo_env_def)
  have r3: "process_data demo_env [0xB5, 0x62, 0x06, 0x01, 0x01] (UBXHandler demo_app) =
              (UBXHandler demo_app, Inl KeyError)"
    using i3 g3 by (intro cfg_field_extraction_failure_escapes [OF p3]) simp
  have p4: "parse demo_env [0xB5, 0x62, 0x06, 0x01, 0x02] False = Inr cfg_msg_no_rateSPI"
    by (simp add: demo_env_def demo_frames_def)
  have i4: "identity cfg_msg_no_rateSPI = ''CFG-MSG''"
    by (simp add: cfg_msg_no_rateSPI_def)
  have k4: "bind_exn (getattr cfg_msg_no_rateSPI ''msgClass'') (\<lambda>c.
              bind_exn (getattr cfg_msg_no_rateSPI ''msgID'') (\<lambda>i.
              bind_exn (py_add c i) (dict_getitem (UBX_CONFIG_MESSAGES demo_env)))) =
            Inr ''NAV-POSLLH''"
    by (simp add: bind_exn_def getattr_def cfg_msg_no_rateSPI_def demo_env_def)
  have g4: "getattrs cfg_msg_no_rateSPI [''rateDDC'', ''rateUART1'', ''rateUART2'', ''rateUSB'',
              ''rateSPI'', ''reserved''] = Inl AttributeError"
    by (rule getattrs_missing [of "''rateSPI''"]) (simp_all add: cfg_msg_no_rateSPI_def)
  have r4: "process_data demo_env [0xB5, 0x62, 0x06, 0x01, 0x02] (UBXHandler demo_app) =
              (UBXHandler demo_app, Inl AttributeError)"
    using i4 k4 g4
    by (intro cfg_field_extraction_failure_escapes [OF p4, where msgtype = "''NAV-POSLLH''"]) simp
  show ?thesis using r1 r2 r3 r4 by simp
qed

end
